theory Spec2Isabelle
  imports
    Complex_Main
    "HOL-Library.Char_ord"
    "HOL-Library.List_Lexorder"
    "HOL-Library.Product_Lexorder"
begin

section \<open>Ratio and going-concern engine (fin\_review/analytics/ratio\_analyzer.py)\<close>

text \<open>
  Amounts, ratio values and scores are Python floats in the source. They are modelled as
  exact reals: rounding is not modelled, and NaN and the infinities do not occur in the
  ratio engine because every division is guarded by a test of its denominator.
\<close>

subsection \<open>Data model\<close>

text \<open>\<^verbatim>\<open>RatioResult.status\<close>: one of 'excellent', 'good', 'warning', 'critical'.\<close>

datatype status = Excellent | Good | Warning | Critical


text \<open>The \<^verbatim>\<open>thresholds\<close> dictionary of a ratio configuration (four fixed keys).\<close>

record thresholds =
  excellent :: real
  good :: real
  warning :: real
  critical :: real

text \<open>
  An entry of \<^verbatim>\<open>ratio_configs\<close>. The \<^verbatim>\<open>formula\<close> and \<^verbatim>\<open>benchmark\<close> entries are display
  text that no computation reads; they are left out.
\<close>

record ratio_config =
  cfg_category :: string
  cfg_thresholds :: thresholds

text \<open>
  \<^verbatim>\<open>RatioResult\<close>, without its display-only fields (benchmark, interpretation, formula,
  missing\_data).
\<close>

record ratio_result =
  ratio_name :: string
  ratio_value :: real
  ratio_category :: string
  ratio_status :: status
  applicable :: bool


text \<open>The one-row frames returned by the three statement builders.\<close>

record balance_sheet =
  bs_current_assets :: real
  bs_non_current_assets :: real
  bs_total_assets :: real
  bs_current_liabilities :: real
  bs_non_current_liabilities :: real
  bs_total_liabilities :: real
  bs_total_equity :: real

record income_statement =
  inc_revenue :: real
  inc_cost_of_sales :: real
  inc_gross_profit :: real
  inc_operating_expenses :: real
  inc_payroll :: real
  inc_depreciation :: real
  inc_other_expenses :: real
  inc_total_operating_expenses :: real
  inc_ebit :: real
  inc_interest_expense :: real
  inc_income_tax :: real
  inc_net_income :: real

record cash_flow =
  cf_operating_cash_flow :: real
  cf_capital_expenditures :: real
  cf_free_cash_flow :: real
  cf_cash_and_cash_equivalents :: real

subsection \<open>The configuration table\<close>

definition mk_thresholds :: "real \<Rightarrow> real \<Rightarrow> real \<Rightarrow> real \<Rightarrow> thresholds" where
  "mk_thresholds e g w c = \<lparr>excellent = e, good = g, warning = w, critical = c\<rparr>"

definition mk_config :: "string \<Rightarrow> thresholds \<Rightarrow> ratio_config" where
  "mk_config cat th = \<lparr>cfg_category = cat, cfg_thresholds = th\<rparr>"

text \<open>\<^verbatim>\<open>self.ratio_configs\<close>, in the order of the dictionary literal.\<close>

definition ratio_configs :: "(string \<times> ratio_config) list" where
  "ratio_configs =
    [(''current_ratio'', mk_config ''Liquidity'' (mk_thresholds 2.0 1.5 1.0 0.5)),
     (''quick_ratio'', mk_config ''Liquidity'' (mk_thresholds 1.5 1.0 0.8 0.5)),
     (''cash_ratio'', mk_config ''Liquidity'' (mk_thresholds 1.0 0.5 0.3 0.1)),
     (''operating_cash_flow_ratio'', mk_config ''Liquidity'' (mk_thresholds 1.5 1.0 0.8 0.5)),
     (''working_capital'', mk_config ''Liquidity'' (mk_thresholds 1000000 500000 0 (- 500000))),
     (''net_working_capital_ratio'', mk_config ''Liquidity'' (mk_thresholds 0.2 0.1 0.05 0.0)),
     (''debt_to_equity_ratio'', mk_config ''Solvency'' (mk_thresholds 0.5 1.5 2.0 3.0)),
     (''equity_ratio'', mk_config ''Solvency'' (mk_thresholds 0.6 0.4 0.3 0.2)),
     (''debt_ratio'', mk_config ''Solvency'' (mk_thresholds 0.3 0.5 0.7 0.8)),
     (''interest_coverage_ratio'', mk_config ''Solvency'' (mk_thresholds 5.0 3.0 1.5 1.0)),
     (''fixed_charge_coverage_ratio'', mk_config ''Solvency'' (mk_thresholds 3.0 2.0 1.5 1.0)),
     (''long_term_debt_to_capitalization'', mk_config ''Solvency'' (mk_thresholds 0.3 0.5 0.7 0.8)),
     (''cash_flow_to_debt_ratio'', mk_config ''Cash Flow'' (mk_thresholds 0.4 0.3 0.2 0.1)),
     (''free_cash_flow'', mk_config ''Cash Flow'' (mk_thresholds 1000000 500000 0 (- 500000))),
     (''free_cash_flow_to_revenue'', mk_config ''Cash Flow'' (mk_thresholds 0.1 0.05 0.02 0.0)),
     (''current_liability_coverage_ratio'', mk_config ''Cash Flow'' (mk_thresholds 1.5 1.0 0.8 0.5)),
     (''net_profit_margin'', mk_config ''Profitability'' (mk_thresholds 0.15 0.10 0.05 0.0)),
     (''return_on_assets'', mk_config ''Profitability'' (mk_thresholds 0.10 0.05 0.03 0.0)),
     (''return_on_equity'', mk_config ''Profitability'' (mk_thresholds 0.20 0.15 0.10 0.05)),
     (''asset_turnover'', mk_config ''Efficiency'' (mk_thresholds 1.5 1.0 0.8 0.5))]"


subsection \<open>Statement synthesis\<close>






subsection \<open>Ratios and their status\<close>

text \<open>\<^verbatim>\<open>a / b if b != 0 else None\<close>.\<close>

definition guarded_div :: "real \<Rightarrow> real \<Rightarrow> real option" where
  "guarded_div a b = (if b \<noteq> 0 then Some (a / b) else None)"

text \<open>
  \<^verbatim>\<open>_calculate_single_ratio\<close>: the if/elif chain over the ratio name; a name with no branch
  (fixed\_charge\_coverage\_ratio, long\_term\_debt\_to\_capitalization) returns \<open>None\<close>.
\<close>

definition calculate_single_ratio ::
  "balance_sheet \<Rightarrow> income_statement \<Rightarrow> cash_flow \<Rightarrow> string \<Rightarrow> real option" where
  "calculate_single_ratio bs inc cf name =
    (if name = ''current_ratio'' then
       guarded_div (bs_current_assets bs) (bs_current_liabilities bs)
     else if name = ''quick_ratio'' then
       (let inventory = bs_current_assets bs * 0.2;
            quick_assets = bs_current_assets bs - inventory
        in guarded_div quick_assets (bs_current_liabilities bs))
     else if name = ''cash_ratio'' then
       guarded_div (cf_cash_and_cash_equivalents cf) (bs_current_liabilities bs)
     else if name = ''operating_cash_flow_ratio'' then
       guarded_div (cf_operating_cash_flow cf) (bs_current_liabilities bs)
     else if name = ''working_capital'' then
       Some (bs_current_assets bs - bs_current_liabilities bs)
     else if name = ''net_working_capital_ratio'' then
       guarded_div (bs_current_assets bs - bs_current_liabilities bs) (bs_total_assets bs)
     else if name = ''debt_to_equity_ratio'' then
       guarded_div (bs_total_liabilities bs) (bs_total_equity bs)
     else if name = ''equity_ratio'' then
       guarded_div (bs_total_equity bs) (bs_total_assets bs)
     else if name = ''debt_ratio'' then
       guarded_div (bs_total_liabilities bs) (bs_total_assets bs)
     else if name = ''interest_coverage_ratio'' then
       guarded_div (inc_ebit inc) (inc_interest_expense inc)
     else if name = ''cash_flow_to_debt_ratio'' then
       guarded_div (cf_operating_cash_flow cf) (bs_total_liabilities bs)
     else if name = ''free_cash_flow'' then
       Some (cf_free_cash_flow cf)
     else if name = ''free_cash_flow_to_revenue'' then
       guarded_div (cf_free_cash_flow cf) (inc_revenue inc)
     else if name = ''current_liability_coverage_ratio'' then
       guarded_div (cf_free_cash_flow cf) (bs_current_liabilities bs)
     else if name = ''net_profit_margin'' then
       guarded_div (inc_net_income inc) (inc_revenue inc)
     else if name = ''return_on_assets'' then
       guarded_div (inc_net_income inc) (bs_total_assets bs)
     else if name = ''return_on_equity'' then
       guarded_div (inc_net_income inc) (bs_total_equity bs)
     else if name = ''asset_turnover'' then
       guarded_div (inc_revenue inc) (bs_total_assets bs)
     else None)"

text \<open>\<^verbatim>\<open>_determine_status\<close>: the thresholds are tested from 'excellent' downwards.\<close>

definition determine_status :: "real \<Rightarrow> thresholds \<Rightarrow> status" where
  "determine_status v th =
    (if v \<ge> excellent th then Excellent
     else if v \<ge> good th then Good
     else if v \<ge> warning th then Warning
     else Critical)"

text \<open>
  The body of the loop of \<^verbatim>\<open>_calculate_ratios\<close> for one configuration entry: a computed
  value is rated; a ratio without a value is recorded as not applicable with status
  'warning' and value 0.0.
\<close>

definition ratio_entry ::
  "balance_sheet \<Rightarrow> income_statement \<Rightarrow> cash_flow \<Rightarrow> string \<times> ratio_config \<Rightarrow> ratio_result" where
  "ratio_entry bs inc cf e =
    (case calculate_single_ratio bs inc cf (fst e) of
       Some v \<Rightarrow>
         \<lparr>ratio_name = fst e, ratio_value = v, ratio_category = cfg_category (snd e),
          ratio_status = determine_status v (cfg_thresholds (snd e)), applicable = True\<rparr>
     | None \<Rightarrow>
         \<lparr>ratio_name = fst e, ratio_value = 0, ratio_category = cfg_category (snd e),
          ratio_status = Warning, applicable = False\<rparr>)"

definition calculate_ratios ::
  "balance_sheet \<Rightarrow> income_statement \<Rightarrow> cash_flow \<Rightarrow> ratio_result list" where
  "calculate_ratios bs inc cf = map (ratio_entry bs inc cf) ratio_configs"

subsection \<open>Going-concern scoring\<close>










text \<open>The order of the status tiers: critical < warning < good < excellent.\<close>

definition tier :: "status \<Rightarrow> nat" where
  "tier s = (case s of Critical \<Rightarrow> 0 | Warning \<Rightarrow> 1 | Good \<Rightarrow> 2 | Excellent \<Rightarrow> 3)"

text \<open>The threshold that a configuration stores for a tier.\<close>

definition threshold_for :: "thresholds \<Rightarrow> status \<Rightarrow> real" where
  "threshold_for th s =
    (case s of Excellent \<Rightarrow> excellent th | Good \<Rightarrow> good th
     | Warning \<Rightarrow> warning th | Critical \<Rightarrow> critical th)"

section \<open>Normalizer (fin\_review/transformers/normalizer.py)\<close>

text \<open>
  A data frame is a list of rows. A row carries every column that the pipeline assigns;
  assigning a column (\<^verbatim>\<open>df['c'] = ...\<close>) is a record update of every row. The columns
  whose presence the code tests (\<^verbatim>\<open>'c' in df.columns\<close>) have a flag in the frame; the
  value of a row's field is meaningful only when the flag of its column is set.
  Dates are day numbers; a missing date (NaT) or number (NaN) is \<open>None\<close>.
\<close>

datatype log_level = Log_Debug | Log_Info | Log_Warning

type_synonym log_entry = "log_level \<times> string"

record txn =
  posting_date :: int
  doc_id :: string
  gl_account :: string
  amount :: "real option"
  open_amount :: "real option"
  due_date :: "int option"
  year_month :: string
  bucket :: string
  txn_type :: string
  entity_mapped :: "string option"
  is_mapped :: bool
  is_receivable :: bool
  is_payable :: bool
  is_revenue :: bool
  is_opex :: bool
  is_payroll :: bool
  days_overdue :: "int option"
  is_overdue :: bool
  aging_bucket :: string

record frame =
  rows :: "txn list"
  has_open_amount :: bool
  has_due_date :: bool
  has_days_overdue :: bool

text \<open>A row of the mapping table; the optional columns entity and notes may be empty.\<close>

record mapping_row =
  map_gl_account :: string
  map_bucket :: string
  map_type :: string
  map_entity :: "string option"
  map_notes :: "string option"

text \<open>A value of the dictionary \<^verbatim>\<open>mapping_dict\<close>.\<close>

record mapping_entry =
  entry_bucket :: string
  entry_type :: string
  entry_entity_mapped :: "string option"
  entry_notes :: "string option"

text \<open>The configuration keys that the normalizer reads, after their defaults.\<close>

record norm_config =
  amount_sign_convention :: string
  overdue_threshold_days :: int

definition normalize_amounts :: "norm_config \<Rightarrow> frame \<Rightarrow> frame \<times> log_entry list" where
  "normalize_amounts cfg f =
    (if amount_sign_convention cfg = ''positive_credit'' then
       (f\<lparr>rows := map (\<lambda>r. r\<lparr>amount := map_option uminus (amount r),
                              open_amount := (if has_open_amount f
                                              then map_option uminus (open_amount r)
                                              else open_amount r)\<rparr>) (rows f)\<rparr>,
        [(Log_Info, ''Converting amounts from positive_credit to positive_debit convention'')])
     else (f, []))"

text \<open>
  \<^verbatim>\<open>_add_temporal_features\<close>. The month period of a date is computed by pandas
  (\<^verbatim>\<open>dt.to_period('M')\<close>); it is the parameter \<open>to_period\<close>, with a period represented by
  its \<^verbatim>\<open>'%Y-%m'\<close> rendering. The columns year, quarter, month, year\_quarter, day\_of\_week
  and week\_of\_year are read by none of the functions modelled here and are left out.
\<close>

definition add_temporal_features :: "(int \<Rightarrow> string) \<Rightarrow> frame \<Rightarrow> frame \<times> log_entry list" where
  "add_temporal_features to_period f =
    (f\<lparr>rows := map (\<lambda>r. r\<lparr>year_month := to_period (posting_date r)\<rparr>) (rows f)\<rparr>,
     [(Log_Debug, ''Added temporal features'')])"

text \<open>The loop that fills \<^verbatim>\<open>mapping_dict\<close>: a later row replaces an earlier one.\<close>

definition mapping_dict :: "mapping_row list \<Rightarrow> (string \<rightharpoonup> mapping_entry)" where
  "mapping_dict mapping_df =
     fold (\<lambda>row d. d(map_gl_account row \<mapsto>
             \<lparr>entry_bucket = map_bucket row, entry_type = map_type row,
              entry_entity_mapped = map_entity row, entry_notes = map_notes row\<rparr>))
          mapping_df Map.empty"

text \<open>\<^verbatim>\<open>mapping_dict.get(x, {}).get('bucket', 'Unmapped')\<close> and its two siblings.\<close>

definition lookup_bucket :: "(string \<rightharpoonup> mapping_entry) \<Rightarrow> string \<Rightarrow> string" where
  "lookup_bucket d x = (case d x of None \<Rightarrow> ''Unmapped'' | Some e \<Rightarrow> entry_bucket e)"

definition lookup_type :: "(string \<rightharpoonup> mapping_entry) \<Rightarrow> string \<Rightarrow> string" where
  "lookup_type d x = (case d x of None \<Rightarrow> ''Other'' | Some e \<Rightarrow> entry_type e)"

definition lookup_entity :: "(string \<rightharpoonup> mapping_entry) \<Rightarrow> string \<Rightarrow> string option" where
  "lookup_entity d x = (case d x of None \<Rightarrow> None | Some e \<Rightarrow> entry_entity_mapped e)"

definition merge_row :: "(string \<rightharpoonup> mapping_entry) \<Rightarrow> txn \<Rightarrow> txn" where
  "merge_row d r =
     r\<lparr>bucket := lookup_bucket d (gl_account r),
       txn_type := lookup_type d (gl_account r),
       entity_mapped := lookup_entity d (gl_account r),
       is_mapped := (lookup_bucket d (gl_account r) \<noteq> ''Unmapped'')\<rparr>"

definition merge_mapping :: "mapping_row list \<Rightarrow> frame \<Rightarrow> frame \<times> log_entry list" where
  "merge_mapping mapping_df f =
    (let d = mapping_dict mapping_df;
         rows' = map (merge_row d) (rows f);
         unmapped_count = length (filter (\<lambda>r. \<not> is_mapped r) rows')
     in (f\<lparr>rows := rows'\<rparr>,
         (if unmapped_count > 0 then [(Log_Warning, ''Unmapped rows after merge'')] else [])
         @ [(Log_Info, ''Merged mapping data'')]))"

definition enrich_ar_ap_flags :: "frame \<Rightarrow> frame \<times> log_entry list" where
  "enrich_ar_ap_flags f =
    (f\<lparr>rows := map (\<lambda>r. r\<lparr>is_receivable := (txn_type r = ''Receivable''),
                           is_payable := (txn_type r = ''Payable''),
                           is_revenue := (txn_type r = ''Revenue''),
                           is_opex := (txn_type r = ''OPEX''),
                           is_payroll := (txn_type r = ''Payroll'')\<rparr>) (rows f)\<rparr>,
     [(Log_Debug, ''Added type flags'')])"

text \<open>\<^verbatim>\<open>df['posting_date'].max()\<close>; the maximum of an empty column is NaT.\<close>

definition max_posting_date :: "txn list \<Rightarrow> int option" where
  "max_posting_date df =
    (case df of [] \<Rightarrow> None
     | r # rs \<Rightarrow> Some (fold (\<lambda>x m. max (posting_date x) m) rs (posting_date r)))"

text \<open>\<^verbatim>\<open>(a - b).dt.days\<close>: the difference is missing when either date is.\<close>

definition days_between :: "int option \<Rightarrow> int option \<Rightarrow> int option" where
  "days_between a b =
    (case a of None \<Rightarrow> None
     | Some x \<Rightarrow> (case b of None \<Rightarrow> None | Some y \<Rightarrow> Some (x - y)))"

text \<open>\<^verbatim>\<open>days_overdue > threshold\<close>; a comparison with NaN is false.\<close>

definition exceeds :: "int option \<Rightarrow> int \<Rightarrow> bool" where
  "exceeds d t = (case d of None \<Rightarrow> False | Some x \<Rightarrow> x > t)"

text \<open>\<^verbatim>\<open>open_amount.notna() & (open_amount != 0)\<close>.\<close>

definition is_open :: "real option \<Rightarrow> bool" where
  "is_open a = (case a of None \<Rightarrow> False | Some x \<Rightarrow> x \<noteq> 0)"

definition calculate_overdue :: "norm_config \<Rightarrow> frame \<Rightarrow> frame \<times> log_entry list" where
  "calculate_overdue cfg f =
    (if \<not> has_due_date f then
       (f\<lparr>rows := map (\<lambda>r. r\<lparr>days_overdue := Some 0, is_overdue := False\<rparr>) (rows f),
          has_days_overdue := True\<rparr>,
        [(Log_Info, ''due_date column not available, skipping overdue calculation'')])
     else
       (let current_date = max_posting_date (rows f);
            overdue_threshold = overdue_threshold_days cfg;
            flagged = map (\<lambda>r.
              (let d = days_between current_date (due_date r)
               in r\<lparr>days_overdue := d,
                    is_overdue := (if has_open_amount f
                                   then exceeds d overdue_threshold \<and> is_open (open_amount r)
                                   else exceeds d overdue_threshold)\<rparr>)) (rows f);
            overdue_count = length (filter is_overdue flagged)
        in (f\<lparr>rows := flagged, has_days_overdue := True\<rparr>,
            (if overdue_count > 0 then [(Log_Info, ''Overdue items identified'')] else []))))"

text \<open>
  \<^verbatim>\<open>DataNormalizer.normalize\<close>, as the convenience function \<^verbatim>\<open>normalize_data\<close> runs it: the
  five steps in order, each on the frame left by the one before.
\<close>

definition normalize_data ::
  "norm_config \<Rightarrow> (int \<Rightarrow> string) \<Rightarrow> mapping_row list \<Rightarrow> frame \<Rightarrow> frame \<times> log_entry list" where
  "normalize_data cfg to_period mapping_df fagl_df =
    (let (f1, l1) = normalize_amounts cfg fagl_df;
         (f2, l2) = add_temporal_features to_period f1;
         (f3, l3) = merge_mapping mapping_df f2;
         (f4, l4) = enrich_ar_ap_flags f3;
         (f5, l5) = calculate_overdue cfg f4
     in (f5, [(Log_Info, ''Starting data normalization'')] @ l1 @ l2 @ l3 @ l4 @ l5
             @ [(Log_Info, ''Normalization complete'')]))"

section \<open>Aging engine (fin\_review/analytics/aging.py)\<close>

text \<open>An entry \<^verbatim>\<open>[min_days, max_days, label]\<close> of the configured \<^verbatim>\<open>aging_buckets\<close>.\<close>

record aging_bucket_cfg =
  min_days :: int
  max_days :: int
  bucket_name :: string

definition default_aging_buckets :: "aging_bucket_cfg list" where
  "default_aging_buckets =
    [\<lparr>min_days = 0, max_days = 0, bucket_name = ''Current''\<rparr>,
     \<lparr>min_days = 1, max_days = 30, bucket_name = ''0-30 days''\<rparr>,
     \<lparr>min_days = 31, max_days = 60, bucket_name = ''31-60 days''\<rparr>,
     \<lparr>min_days = 61, max_days = 90, bucket_name = ''61-90 days''\<rparr>,
     \<lparr>min_days = 91, max_days = 999999, bucket_name = ''>90 days''\<rparr>]"

text \<open>
  The mask \<^verbatim>\<open>(days_overdue >= min_days) & (days_overdue <= max_days)\<close> of one row; both
  comparisons are false on a missing value.
\<close>

definition in_bucket :: "aging_bucket_cfg \<Rightarrow> int option \<Rightarrow> bool" where
  "in_bucket b d = (case d of None \<Rightarrow> False | Some x \<Rightarrow> x \<ge> min_days b \<and> x \<le> max_days b)"

text \<open>
  The label of one row after the loop over the configured buckets: it starts as 'Unknown'
  and every bucket whose mask holds overwrites it.
\<close>

definition bucket_label :: "aging_bucket_cfg list \<Rightarrow> int option \<Rightarrow> string" where
  "bucket_label buckets d =
     fold (\<lambda>b label. if in_bucket b d then bucket_name b else label) buckets ''Unknown''"

text \<open>
  \<^verbatim>\<open>_assign_aging_buckets\<close>; \<open>current_date\<close> is \<^verbatim>\<open>self.current_date\<close>, the latest posting
  date of the analyzer's frame.
\<close>

definition assign_aging_buckets ::
  "int option \<Rightarrow> aging_bucket_cfg list \<Rightarrow> frame \<Rightarrow> frame \<times> log_entry list" where
  "assign_aging_buckets current_date buckets df =
    (let (df1, lg) =
       (if \<not> has_days_overdue df then
          (if has_due_date df \<and> list_ex (\<lambda>r. due_date r \<noteq> None) (rows df) then
             (df\<lparr>rows := map (\<lambda>r. r\<lparr>days_overdue := days_between current_date (due_date r)\<rparr>)
                              (rows df),
                 has_days_overdue := True\<rparr>, [])
           else
             (df\<lparr>rows := map (\<lambda>r. r\<lparr>days_overdue :=
                                 days_between current_date (Some (posting_date r + 30))\<rparr>)
                              (rows df),
                 has_days_overdue := True\<rparr>,
              [(Log_Warning, ''No due_date available, using posting_date + 30 days'')]))
        else (df, []))
     in (df1\<lparr>rows := map (\<lambda>r. r\<lparr>aging_bucket := bucket_label buckets (days_overdue r)\<rparr>)
                        (rows df1)\<rparr>, lg))"

text \<open>
  The rows that \<^verbatim>\<open>_analyze_ar\<close> passes to the bucket assignment: the receivables, and of
  them the open items when the frame has an open\_amount column.
\<close>

definition open_receivables :: "frame \<Rightarrow> frame" where
  "open_receivables df =
    (let ar = filter is_receivable (rows df)
     in df\<lparr>rows := (if has_open_amount df then filter (\<lambda>r. is_open (open_amount r)) ar else ar)\<rparr>)"

definition open_payables :: "frame \<Rightarrow> frame" where
  "open_payables df =
    (let ap = filter is_payable (rows df)
     in df\<lparr>rows := (if has_open_amount df then filter (\<lambda>r. is_open (open_amount r)) ap else ap)\<rparr>)"

text \<open>
  Two configured ranges share a day number; the buckets of a list do so pairwise nowhere.
\<close>

definition ranges_overlap :: "aging_bucket_cfg \<Rightarrow> aging_bucket_cfg \<Rightarrow> bool" where
  "ranges_overlap a b = (max (min_days a) (min_days b) \<le> min (max_days a) (max_days b))"

fun non_overlapping :: "aging_bucket_cfg list \<Rightarrow> bool" where
  "non_overlapping [] = True"
| "non_overlapping (b # bs) = (list_all (\<lambda>c. \<not> ranges_overlap b c) bs \<and> non_overlapping bs)"

section \<open>Anomaly engine (fin\_review/analytics/anomalies.py)\<close>

datatype severity = High | Medium | Low

datatype detection_method = Zscore | Mad | Isolation_Forest

text \<open>\<^verbatim>\<open>Anomaly\<close>, without the explanation text and the contributor list added afterwards.\<close>

record anomaly =
  anom_date :: string
  anom_bucket :: string
  anom_type :: string
  anom_amount :: real
  expected_amount :: real
  deviation :: real
  deviation_pct :: real
  anom_severity :: severity
  anom_method :: detection_method

text \<open>A row of the table \<^verbatim>\<open>monthly\<close>: the sum of a (year\_month, bucket, type) group.\<close>

record monthly_row =
  m_year_month :: string
  m_bucket :: string
  m_type :: string
  m_amount :: real








text \<open>
  The median of a non-empty list (the source takes it of at least six values, or after a
  test of the length).
\<close>

definition median :: "real list \<Rightarrow> real" where
  "median xs =
    (let s = sort xs; n = length s
     in if odd n then s ! (n div 2) else (s ! (n div 2 - 1) + s ! (n div 2)) / 2)"

text \<open>
  \<^verbatim>\<open>_determine_severity\<close>. The isolation-forest branch compares the score with negative
  bounds, as the source does.
\<close>

definition determine_severity :: "real \<Rightarrow> detection_method \<Rightarrow> severity" where
  "determine_severity score m =
    (case m of
       Zscore \<Rightarrow> (if score > 4 then High else if score > 3.5 then Medium else Low)
     | Mad \<Rightarrow> (if score > 5 then High else if score > 4 then Medium else Low)
     | Isolation_Forest \<Rightarrow>
         (if score < - 0.3 then High else if score < - 0.2 then Medium else Low))"

text \<open>The \<^verbatim>\<open>Anomaly(...)\<close> constructor call shared by the three detectors.\<close>

definition mk_anomaly :: "detection_method \<Rightarrow> severity \<Rightarrow> real \<Rightarrow> monthly_row \<Rightarrow> anomaly" where
  "mk_anomaly m sev expected row =
     \<lparr>anom_date = m_year_month row, anom_bucket = m_bucket row, anom_type = m_type row,
      anom_amount = m_amount row, expected_amount = expected,
      deviation = m_amount row - expected,
      deviation_pct = (if expected \<noteq> 0 then ((m_amount row - expected) / \<bar>expected\<bar>) * 100 else 0),
      anom_severity = sev, anom_method = m\<rparr>"





text \<open>
  The body of the isolation-forest loop for the rows of one bucket. The fitted forest is
  scikit-learn's; it is the parameter \<open>forest\<close>, which gives for the amounts of a bucket,
  row by row, whether the prediction is \<open>-1\<close> and the sample's score.
\<close>

definition isolation_bucket ::
  "(real list \<Rightarrow> (bool \<times> real) list) \<Rightarrow> monthly_row list \<Rightarrow> anomaly list" where
  "isolation_bucket forest bucket_data =
    (if length bucket_data < 10 then []
     else
       (let scored = zip bucket_data (forest (map m_amount bucket_data));
            normal_amounts = map (\<lambda>p. m_amount (fst p)) (filter (\<lambda>p. \<not> fst (snd p)) scored);
            expected = (if length normal_amounts > 0 then median normal_amounts
                        else median (map m_amount bucket_data))
        in map (\<lambda>p. mk_anomaly Isolation_Forest
                       (determine_severity \<bar>snd (snd p)\<bar> Isolation_Forest) expected (fst p))
               (filter (\<lambda>p. fst (snd p)) scored)))"


text \<open>The dictionary \<^verbatim>\<open>severity_order\<close>.\<close>

definition severity_order :: "severity \<Rightarrow> nat" where
  "severity_order s = (case s of High \<Rightarrow> 0 | Medium \<Rightarrow> 1 | Low \<Rightarrow> 2)"

definition anomaly_key :: "anomaly \<Rightarrow> string \<times> string" where
  "anomaly_key a = (anom_date a, anom_bucket a)"

text \<open>The loop of \<^verbatim>\<open>_deduplicate_anomalies\<close> over the sorted list, with its set \<^verbatim>\<open>seen\<close>.\<close>

fun keep_first_seen :: "(string \<times> string) set \<Rightarrow> anomaly list \<Rightarrow> anomaly list" where
  "keep_first_seen seen [] = []"
| "keep_first_seen seen (a # as) =
     (if anomaly_key a \<notin> seen then a # keep_first_seen (insert (anomaly_key a) seen) as
      else keep_first_seen seen as)"

text \<open>\<^verbatim>\<open>_deduplicate_anomalies\<close>; Python's \<^verbatim>\<open>sorted\<close> is stable, as \<open>sort_key\<close> is.\<close>

definition deduplicate_anomalies :: "anomaly list \<Rightarrow> anomaly list" where
  "deduplicate_anomalies anomalies =
     keep_first_seen {}
       (sort_key (\<lambda>a. (anom_date a, anom_bucket a, severity_order (anom_severity a))) anomalies)"


section \<open>KPI engine: growth metrics (fin\_review/analytics/kpis.py)\<close>

text \<open>
  The results of \<^verbatim>\<open>pct_change\<close> are floats that may be NaN or infinite: a division by zero
  in pandas raises nothing. They are modelled by the finite reals with three more values.
\<close>

datatype fval = Fin real | PosInf | NegInf | NaN

text \<open>
  An arithmetic operation that the growth computation evaluates, with the name of the
  metric it belongs to: a division (dividend, divisor) or a power (base, exponent).
\<close>

datatype arith_op = Division string real real | Power string real real

text \<open>The columns of \<^verbatim>\<open>monthly_kpis\<close> that the growth computation reads.\<close>

record kpi_row =
  kpi_year_month :: int
  kpi_revenue :: real
  kpi_opex :: real

text \<open>Float division.\<close>

definition float_div :: "real \<Rightarrow> real \<Rightarrow> fval" where
  "float_div x y =
    (if y \<noteq> 0 then Fin (x / y) else if x > 0 then PosInf else if x < 0 then NegInf else NaN)"

definition fmap :: "(real \<Rightarrow> real) \<Rightarrow> fval \<Rightarrow> fval" where
  "fmap f v = (case v of Fin x \<Rightarrow> Fin (f x) | PosInf \<Rightarrow> PosInf | NegInf \<Rightarrow> NegInf | NaN \<Rightarrow> NaN)"

definition fadd :: "fval \<Rightarrow> fval \<Rightarrow> fval" where
  "fadd a b =
    (case a of
       Fin x \<Rightarrow> (case b of Fin y \<Rightarrow> Fin (x + y) | other \<Rightarrow> other)
     | PosInf \<Rightarrow> (case b of NegInf \<Rightarrow> NaN | NaN \<Rightarrow> NaN | other \<Rightarrow> PosInf)
     | NegInf \<Rightarrow> (case b of PosInf \<Rightarrow> NaN | NaN \<Rightarrow> NaN | other \<Rightarrow> NegInf)
     | NaN \<Rightarrow> NaN)"

text \<open>\<^verbatim>\<open>Series.pct_change(periods=p) * 100\<close>: the first \<open>p\<close> entries are NaN.\<close>

definition pct_change_100 :: "nat \<Rightarrow> real list \<Rightarrow> fval list" where
  "pct_change_100 p xs =
     map (\<lambda>i. if i < p then NaN
              else fmap (\<lambda>q. (q - 1) * 100) (float_div (xs ! i) (xs ! (i - p))))
         [0..<length xs]"

text \<open>The divisions that \<^verbatim>\<open>pct_change(periods=p)\<close> evaluates.\<close>

definition pct_change_ops :: "string \<Rightarrow> nat \<Rightarrow> real list \<Rightarrow> arith_op list" where
  "pct_change_ops metric p xs = map (\<lambda>i. Division metric (xs ! i) (xs ! (i - p))) [p..<length xs]"

text \<open>\<^verbatim>\<open>Series.mean()\<close>: the mean of the entries that are not NaN, NaN if there is none.\<close>

definition fmean :: "fval list \<Rightarrow> fval" where
  "fmean vs =
    (let ws = filter (\<lambda>v. v \<noteq> NaN) vs
     in if ws = [] then NaN else fmap (\<lambda>t. t / real (length ws)) (fold fadd ws (Fin 0)))"

text \<open>
  \<^verbatim>\<open>_calculate_growth_metrics\<close> on the frame of \<^verbatim>\<open>_calculate_monthly_kpis\<close>, which always has
  the columns revenue and opex. The result is the dictionary \<^verbatim>\<open>growth\<close>, as the list of its
  items in insertion order, and the arithmetic operations evaluated on the way.
\<close>

definition calculate_growth_metrics :: "kpi_row list \<Rightarrow> (string \<times> fval) list \<times> arith_op list" where
  "calculate_growth_metrics monthly_kpis =
    (if length monthly_kpis < 2 then ([], [])
     else
       (let monthly = sort_key kpi_year_month monthly_kpis;
            revenue = map kpi_revenue monthly;
            opex = map kpi_opex monthly;
            revenue_mom_growth = pct_change_100 1 revenue;
            mom = ([(''latest_revenue_mom'', last revenue_mom_growth),
                    (''avg_revenue_mom'', fmean revenue_mom_growth)],
                   pct_change_ops ''revenue_mom'' 1 revenue);
            yoy = (if length monthly \<ge> 13 then
                     (let revenue_yoy_growth = pct_change_100 12 revenue
                      in ([(''latest_revenue_yoy'', last revenue_yoy_growth),
                           (''avg_revenue_yoy'', fmean revenue_yoy_growth)],
                          pct_change_ops ''revenue_yoy'' 12 revenue))
                   else ([], []));
            cagr = (if length monthly \<ge> 12 then
                      (let first_value = hd revenue;
                           last_value = last revenue;
                           periods = real (length monthly) / 12
                       in if first_value > 0 \<and> last_value > 0 then
                            ([(''revenue_cagr'',
                               Fin ((((last_value / first_value) powr (1 / periods)) - 1) * 100))],
                             [Division ''revenue_cagr'' (real (length monthly)) 12,
                              Division ''revenue_cagr'' last_value first_value,
                              Division ''revenue_cagr'' 1 periods,
                              Power ''revenue_cagr'' (last_value / first_value) (1 / periods)])
                          else ([], [Division ''revenue_cagr'' (real (length monthly)) 12]))
                    else ([], []));
            opex_mom_growth = pct_change_100 1 opex;
            omom = ([(''latest_opex_mom'', last opex_mom_growth),
                     (''avg_opex_mom'', fmean opex_mom_growth)],
                    pct_change_ops ''opex_mom'' 1 opex)
        in (fst mom @ fst yoy @ fst cagr @ fst omom, snd mom @ snd yoy @ snd cagr @ snd omom)))"

text \<open>
  An operation is a division by zero or a power of a negative base; \<open>metric_of\<close> is the
  metric an operation belongs to.
\<close>

definition hazardous :: "arith_op \<Rightarrow> bool" where
  "hazardous op = (case op of Division m x y \<Rightarrow> y = 0 | Power m b e \<Rightarrow> b < 0)"

definition metric_of :: "arith_op \<Rightarrow> string" where
  "metric_of op = (case op of Division m x y \<Rightarrow> m | Power m b e \<Rightarrow> m)"

section \<open>Sample inputs\<close>



text \<open>A posted revenue item of 1000 with no due date; the derived columns are still unset.\<close>

definition sample_txn :: txn where
  "sample_txn =
    \<lparr>posting_date = 100, doc_id = ''D1'', gl_account = ''400000'', amount = Some 1000,
     open_amount = Some 1000, due_date = None, year_month = [], bucket = [], txn_type = [],
     entity_mapped = None, is_mapped = False, is_receivable = False, is_payable = False,
     is_revenue = False, is_opex = False, is_payroll = False, days_overdue = None,
     is_overdue = False, aging_bucket = []\<rparr>"

text \<open>Two open receivables with their days overdue: one 45 days late, one due in 5 days.\<close>

definition aged_frame :: frame where
  "aged_frame =
    \<lparr>rows = [sample_txn\<lparr>is_receivable := True, days_overdue := Some 45\<rparr>,
             sample_txn\<lparr>doc_id := ''D2'', is_receivable := True, days_overdue := Some (- 5)\<rparr>],
     has_open_amount = True, has_due_date = True, has_days_overdue = True\<rparr>"

text \<open>The normalizer configuration of the defaults, with the shipped overdue threshold.\<close>

definition sample_cfg :: norm_config where
  "sample_cfg = \<lparr>amount_sign_convention = ''positive_debit'', overdue_threshold_days = 30\<rparr>"

text \<open>A calendar that puts every date in January 2024.\<close>

definition sample_period :: "int \<Rightarrow> string" where
  "sample_period d = ''2024-01''"

text \<open>A mapping table whose only account has the bucket label Unmapped.\<close>

definition sentinel_mapping :: "mapping_row list" where
  "sentinel_mapping =
    [\<lparr>map_gl_account = ''400000'', map_bucket = ''Unmapped'', map_type = ''Revenue'',
      map_entity = None, map_notes = None\<rparr>]"

text \<open>A mapping table that classifies account 400000 as revenue.\<close>

definition revenue_mapping :: "mapping_row list" where
  "revenue_mapping =
    [\<lparr>map_gl_account = ''400000'', map_bucket = ''Revenue'', map_type = ''Revenue'',
      map_entity = None, map_notes = None\<rparr>]"

text \<open>A ledger export of one row without a due\_date column.\<close>

definition no_due_frame :: frame where
  "no_due_frame =
    \<lparr>rows = [sample_txn], has_open_amount = True, has_due_date = False,
     has_days_overdue = False\<rparr>"

text \<open>A ledger export of two rows, posted on days 100 and 160, without a due\_date column.\<close>

definition two_row_frame :: frame where
  "two_row_frame =
    \<lparr>rows = [sample_txn, sample_txn\<lparr>doc_id := ''D2'', posting_date := 160\<rparr>],
     has_open_amount = True, has_due_date = False, has_days_overdue = False\<rparr>"

text \<open>The month and bucket of the two sample flags.\<close>

definition flag_key :: "string \<times> string" where
  "flag_key = (''2024-03'', ''Sales'')"

text \<open>A low-severity flag of the z-score detector for March 2024 sales.\<close>

definition zscore_flag :: anomaly where
  "zscore_flag =
    \<lparr>anom_date = ''2024-03'', anom_bucket = ''Sales'', anom_type = ''Revenue'',
     anom_amount = 1000, expected_amount = 175, deviation = 825, deviation_pct = 825 / 175 * 100,
     anom_severity = Low, anom_method = Zscore\<rparr>"

text \<open>A high-severity flag of the MAD detector for the same month and bucket.\<close>

definition mad_flag :: anomaly where
  "mad_flag =
    \<lparr>anom_date = ''2024-03'', anom_bucket = ''Sales'', anom_type = ''Revenue'',
     anom_amount = 1000, expected_amount = 100, deviation = 900, deviation_pct = 900,
     anom_severity = High, anom_method = Mad\<rparr>"







text \<open>A row of the monthly KPI frame: month number, revenue and operating expenses.\<close>

definition kpi_month :: "int \<Rightarrow> real \<Rightarrow> real \<Rightarrow> kpi_row" where
  "kpi_month t r x = \<lparr>kpi_year_month = t, kpi_revenue = r, kpi_opex = x\<rparr>"

text \<open>Twelve monthly rows, not in order of time, with a revenue of 0 in month 6.\<close>

definition one_year_kpis :: "kpi_row list" where
  "one_year_kpis =
    [kpi_month 2 110 50, kpi_month 1 100 50, kpi_month 3 120 50, kpi_month 4 120 50,
     kpi_month 5 130 50, kpi_month 6 0 50, kpi_month 7 140 50, kpi_month 8 150 50,
     kpi_month 9 150 50, kpi_month 10 160 50, kpi_month 11 170 50, kpi_month 12 200 50]"

section \<open>Properties of the ratio and going-concern engine\<close>

lemma determine_status_mono:
  "v1 \<le> v2 \<Longrightarrow> tier (determine_status v1 th) \<le> tier (determine_status v2 th)"
  by (simp add: determine_status_def tier_def)





text \<open>
  Claim C8. For thresholds ordered excellent \<open>\<ge>\<close> good \<open>\<ge>\<close> warning, the status of a value
  is the highest tier whose threshold the value meets: for each of the tiers excellent,
  good and warning, the status is at least that tier exactly when the value reaches the
  tier's threshold (critical is the tier of a value that reaches none of the three; its
  own threshold is not consulted). Hence a larger value never has a lower tier.
\<close>

theorem determine_status_highest_met_tier:
  assumes "excellent th \<ge> good th" and "good th \<ge> warning th"
  shows "(\<forall>s. s \<noteq> Critical \<longrightarrow>
            (tier s \<le> tier (determine_status v th) \<longleftrightarrow> threshold_for th s \<le> v))
       \<and> (\<forall>v1 v2. v1 \<le> v2 \<longrightarrow> tier (determine_status v1 th) \<le> tier (determine_status v2 th))"
proof (intro conjI allI impI)
  fix s :: status
  assume "s \<noteq> Critical"
  with assms show "tier s \<le> tier (determine_status v th) \<longleftrightarrow> threshold_for th s \<le> v"
    by (cases s) (auto simp add: determine_status_def tier_def threshold_for_def)
next
  fix v1 v2 :: real
  assume "v1 \<le> v2"
  then show "tier (determine_status v1 th) \<le> tier (determine_status v2 th)"
    by (rule determine_status_mono)
qed

theorem determine_status_highest_met_tier_witness:
  "good (mk_thresholds 2.0 1.5 1.0 0.5) \<le> excellent (mk_thresholds 2.0 1.5 1.0 0.5)
   \<and> warning (mk_thresholds 2.0 1.5 1.0 0.5) \<le> good (mk_thresholds 2.0 1.5 1.0 0.5)
   \<and> Good \<noteq> Critical
   \<and> (tier Good \<le> tier (determine_status 2.5 (mk_thresholds 2.0 1.5 1.0 0.5))
        \<longleftrightarrow> threshold_for (mk_thresholds 2.0 1.5 1.0 0.5) Good \<le> 2.5)
   \<and> (1.2 :: real) \<le> 2.5
   \<and> tier (determine_status 1.2 (mk_thresholds 2.0 1.5 1.0 0.5))
       \<le> tier (determine_status 2.5 (mk_thresholds 2.0 1.5 1.0 0.5))
   \<and> determine_status 2.5 (mk_thresholds 2.0 1.5 1.0 0.5) = Excellent"
proof -
  let ?th = "mk_thresholds 2.0 1.5 1.0 0.5"
  have h1: "good ?th \<le> excellent ?th" by (simp add: mk_thresholds_def)
  have h2: "warning ?th \<le> good ?th" by (simp add: mk_thresholds_def)
  have h3: "(1.2 :: real) \<le> 2.5" by simp
  note t = determine_status_highest_met_tier [OF h1 h2, of "2.5"]
  from t have a: "tier Good \<le> tier (determine_status 2.5 ?th) \<longleftrightarrow> threshold_for ?th Good \<le> 2.5"
    by blast
  from t h3 have b: "tier (determine_status 1.2 ?th) \<le> tier (determine_status 2.5 ?th)"
    by blast
  have c: "determine_status 2.5 ?th = Excellent"
    by (simp add: determine_status_def mk_thresholds_def)
  show ?thesis using h1 h2 h3 a b c by blast
qed










section \<open>Properties of the aging engine\<close>

lemma ranges_overlap_iff:
  "ranges_overlap a b \<longleftrightarrow> (\<exists>d. in_bucket a (Some d) \<and> in_bucket b (Some d))"
proof
  assume "ranges_overlap a b"
  then have "in_bucket a (Some (max (min_days a) (min_days b)))
             \<and> in_bucket b (Some (max (min_days a) (min_days b)))"
    by (auto simp add: ranges_overlap_def in_bucket_def)
  then show "\<exists>d. in_bucket a (Some d) \<and> in_bucket b (Some d)" by blast
next
  assume "\<exists>d. in_bucket a (Some d) \<and> in_bucket b (Some d)"
  then show "ranges_overlap a b"
    by (auto simp add: ranges_overlap_def in_bucket_def)
qed

lemma in_bucket_disjoint:
  "\<not> ranges_overlap a c \<Longrightarrow> in_bucket a d \<Longrightarrow> \<not> in_bucket c d"
  by (cases d) (auto simp add: ranges_overlap_def in_bucket_def)

lemma in_bucket_disjoint':
  "\<not> ranges_overlap a c \<Longrightarrow> in_bucket c d \<Longrightarrow> \<not> in_bucket a d"
  by (cases d) (auto simp add: ranges_overlap_def in_bucket_def)

lemma label_fold_none:
  "\<forall>b \<in> set bs. \<not> in_bucket b d \<Longrightarrow>
   fold (\<lambda>b label. if in_bucket b d then bucket_name b else label) bs l = l"
  by (induction bs arbitrary: l) auto

lemma label_fold_hit:
  "non_overlapping bs \<Longrightarrow> b \<in> set bs \<Longrightarrow> in_bucket b d \<Longrightarrow>
   fold (\<lambda>b label. if in_bucket b d then bucket_name b else label) bs l = bucket_name b"
proof (induction bs arbitrary: l)
  case Nil
  then show ?case by simp
next
  case (Cons a bs)
  show ?case
  proof (cases "in_bucket a d")
    case True
    with Cons.prems(1) have none: "\<forall>c \<in> set bs. \<not> in_bucket c d"
      by (auto simp add: list_all_iff dest: in_bucket_disjoint)
    with Cons.prems(2,3) have "b = a" by auto
    with True none show ?thesis by (simp add: label_fold_none)
  next
    case False
    with Cons.prems have "b \<in> set bs" and "non_overlapping bs" by auto
    with Cons.IH Cons.prems(3) False show ?thesis by simp
  qed
qed

lemma covering_bucket_unique:
  "non_overlapping bs \<Longrightarrow> b \<in> set bs \<Longrightarrow> c \<in> set bs \<Longrightarrow>
   in_bucket b d \<Longrightarrow> in_bucket c d \<Longrightarrow> c = b"
proof (induction bs)
  case Nil
  then show ?case by simp
next
  case (Cons a bs)
  then show ?case
    by (auto simp add: list_all_iff dest: in_bucket_disjoint in_bucket_disjoint')
qed

lemma bucket_label_hit:
  "non_overlapping bs \<Longrightarrow> b \<in> set bs \<Longrightarrow> in_bucket b d \<Longrightarrow> bucket_label bs d = bucket_name b"
  by (simp add: bucket_label_def label_fold_hit)

lemma bucket_label_none:
  "\<forall>b \<in> set bs. \<not> in_bucket b d \<Longrightarrow> bucket_label bs d = ''Unknown''"
  by (simp add: bucket_label_def label_fold_none)

lemma assign_rows_labelled:
  "r \<in> set (rows (fst (assign_aging_buckets cd buckets df))) \<Longrightarrow>
   aging_bucket r = bucket_label buckets (days_overdue r)"
  by (auto simp add: assign_aging_buckets_def Let_def split: if_splits)

lemma assign_rows_kept:
  "length (rows (fst (assign_aging_buckets cd buckets df))) = length (rows df)
   \<and> map doc_id (rows (fst (assign_aging_buckets cd buckets df))) = map doc_id (rows df)
   \<and> map open_amount (rows (fst (assign_aging_buckets cd buckets df))) = map open_amount (rows df)"
  by (simp add: assign_aging_buckets_def Let_def o_def)

lemma assign_days_kept:
  "has_days_overdue df \<Longrightarrow>
   map days_overdue (rows (fst (assign_aging_buckets cd buckets df))) = map days_overdue (rows df)"
  by (simp add: assign_aging_buckets_def Let_def o_def)

text \<open>
  Claim C6. For pairwise non-overlapping configured buckets, the bucket assignment keeps
  every row, in order, and gives each row exactly one label: the name of the one
  configured bucket whose range from min\_days to max\_days holds the row's days overdue,
  or 'Unknown' when no configured range holds it (also when the days overdue are missing).
\<close>

theorem aging_bucket_assignment_partition:
  assumes "non_overlapping buckets"
  shows "length (rows (fst (assign_aging_buckets cd buckets df))) = length (rows df)
   \<and> map doc_id (rows (fst (assign_aging_buckets cd buckets df))) = map doc_id (rows df)
   \<and> (has_days_overdue df \<longrightarrow>
        map days_overdue (rows (fst (assign_aging_buckets cd buckets df)))
          = map days_overdue (rows df))
   \<and> (\<forall>r \<in> set (rows (fst (assign_aging_buckets cd buckets df))).
        (\<forall>b \<in> set buckets. in_bucket b (days_overdue r) \<longrightarrow>
           aging_bucket r = bucket_name b
           \<and> (\<forall>c \<in> set buckets. in_bucket c (days_overdue r) \<longrightarrow> c = b))
        \<and> ((\<forall>b \<in> set buckets. \<not> in_bucket b (days_overdue r)) \<longrightarrow>
             aging_bucket r = ''Unknown''))"
proof (intro conjI ballI impI)
  show "length (rows (fst (assign_aging_buckets cd buckets df))) = length (rows df)"
    using assign_rows_kept by blast
  show "map doc_id (rows (fst (assign_aging_buckets cd buckets df))) = map doc_id (rows df)"
    using assign_rows_kept by blast
next
  assume "has_days_overdue df"
  then show "map days_overdue (rows (fst (assign_aging_buckets cd buckets df)))
          = map days_overdue (rows df)"
    by (rule assign_days_kept)
next
  fix r b
  assume r: "r \<in> set (rows (fst (assign_aging_buckets cd buckets df)))"
    and b: "b \<in> set buckets" "in_bucket b (days_overdue r)"
  from assms b have "bucket_label buckets (days_overdue r) = bucket_name b"
    by (rule bucket_label_hit)
  with r show "aging_bucket r = bucket_name b"
    by (simp add: assign_rows_labelled)
next
  fix r :: txn and b c
  assume "b \<in> set buckets" "in_bucket b (days_overdue r)"
    "c \<in> set buckets" "in_bucket c (days_overdue r)"
  with assms show "c = b"
    by (blast intro: covering_bucket_unique)
next
  fix r
  assume r: "r \<in> set (rows (fst (assign_aging_buckets cd buckets df)))"
    and "\<forall>b \<in> set buckets. \<not> in_bucket b (days_overdue r)"
  then have "bucket_label buckets (days_overdue r) = ''Unknown''"
    by (simp add: bucket_label_none)
  with r show "aging_bucket r = ''Unknown''"
    by (simp add: assign_rows_labelled)
qed

lemma default_buckets_non_overlapping: "non_overlapping default_aging_buckets"
  by (simp add: default_aging_buckets_def ranges_overlap_def)

lemma aged_rows:
  "rows (fst (assign_aging_buckets (Some 100) default_aging_buckets aged_frame)) =
    [sample_txn\<lparr>is_receivable := True, days_overdue := Some 45, aging_bucket := ''31-60 days''\<rparr>,
     sample_txn\<lparr>doc_id := ''D2'', is_receivable := True, days_overdue := Some (- 5),
                aging_bucket := ''Unknown''\<rparr>]"
  by (simp add: assign_aging_buckets_def aged_frame_def default_aging_buckets_def
      bucket_label_def in_bucket_def)

theorem aging_bucket_assignment_partition_witness:
  "non_overlapping default_aging_buckets
   \<and> length (rows (fst (assign_aging_buckets (Some 100) default_aging_buckets aged_frame))) = 2
   \<and> map aging_bucket (rows (fst (assign_aging_buckets (Some 100) default_aging_buckets aged_frame)))
       = [''31-60 days'', ''Unknown'']
   \<and> in_bucket \<lparr>min_days = 31, max_days = 60, bucket_name = ''31-60 days''\<rparr> (Some 45)
   \<and> list_all (\<lambda>b. \<not> in_bucket b (Some (- 5))) default_aging_buckets"
proof -
  let ?out = "rows (fst (assign_aging_buckets (Some 100) default_aging_buckets aged_frame))"
  note t = aging_bucket_assignment_partition
             [OF default_buckets_non_overlapping, of "Some 100" aged_frame]
  from t have len: "length ?out = length (rows aged_frame)" by blast
  have cov: "in_bucket \<lparr>min_days = 31, max_days = 60, bucket_name = ''31-60 days''\<rparr> (Some 45)"
    by (simp add: in_bucket_def)
  have unc: "\<forall>b \<in> set default_aging_buckets. \<not> in_bucket b (Some (- 5))"
    by (simp add: default_aging_buckets_def in_bucket_def)
  from len have "length ?out = 2" by (simp add: aged_frame_def)
  moreover have "map aging_bucket ?out = [''31-60 days'', ''Unknown'']"
    by (simp add: aged_rows)
  ultimately show ?thesis
    using default_buckets_non_overlapping cov unc by (simp add: list_all_iff)
qed

section \<open>Properties of the normalizer\<close>

lemma mapping_dict_fold_dom:
  "dom (fold (\<lambda>row d. d(map_gl_account row \<mapsto>
             \<lparr>entry_bucket = map_bucket row, entry_type = map_type row,
              entry_entity_mapped = map_entity row, entry_notes = map_notes row\<rparr>)) m d0)
   = dom d0 \<union> set (map map_gl_account m)"
  by (induction m arbitrary: d0) auto

lemma mapping_dict_dom: "dom (mapping_dict m) = set (map map_gl_account m)"
  by (simp add: mapping_dict_def mapping_dict_fold_dom)

lemma normalize_fst:
  "fst (normalize_data cfg tp m f) =
     fst (calculate_overdue cfg (fst (enrich_ar_ap_flags (fst (merge_mapping m
       (fst (add_temporal_features tp (fst (normalize_amounts cfg f)))))))))"
  by (simp add: normalize_data_def split_def Let_def)

lemma normalize_snd:
  "snd (normalize_data cfg tp m f) =
     [(Log_Info, ''Starting data normalization'')]
     @ snd (normalize_amounts cfg f)
     @ snd (add_temporal_features tp (fst (normalize_amounts cfg f)))
     @ snd (merge_mapping m (fst (add_temporal_features tp (fst (normalize_amounts cfg f)))))
     @ snd (enrich_ar_ap_flags (fst (merge_mapping m
         (fst (add_temporal_features tp (fst (normalize_amounts cfg f)))))))
     @ snd (calculate_overdue cfg (fst (enrich_ar_ap_flags (fst (merge_mapping m
         (fst (add_temporal_features tp (fst (normalize_amounts cfg f)))))))))
     @ [(Log_Info, ''Normalization complete'')]"
  by (simp add: normalize_data_def split_def Let_def)

lemma steps_keep_due_date_flag:
  "has_due_date (fst (enrich_ar_ap_flags (fst (merge_mapping m
       (fst (add_temporal_features tp (fst (normalize_amounts cfg f)))))))) = has_due_date f"
  by (simp add: normalize_amounts_def add_temporal_features_def merge_mapping_def
      enrich_ar_ap_flags_def Let_def)

lemma normalize_amounts_keeps:
  "map gl_account (rows (fst (normalize_amounts cfg f))) = map gl_account (rows f)"
  by (simp add: normalize_amounts_def o_def)

lemma add_temporal_features_keeps:
  "map gl_account (rows (fst (add_temporal_features tp f))) = map gl_account (rows f)"
  by (simp add: add_temporal_features_def o_def)

lemma merge_mapping_rows:
  "rows (fst (merge_mapping m f)) = map (merge_row (mapping_dict m)) (rows f)"
  by (simp add: merge_mapping_def Let_def)

lemma merged_columns:
  "map gl_account (map (merge_row d) xs) = map gl_account xs"
  "map bucket (map (merge_row d) xs) = map (lookup_bucket d) (map gl_account xs)"
  "map txn_type (map (merge_row d) xs) = map (lookup_type d) (map gl_account xs)"
  "map is_mapped (map (merge_row d) xs)
     = map (\<lambda>a. lookup_bucket d a \<noteq> ''Unmapped'') (map gl_account xs)"
  by (simp_all add: merge_row_def o_def)

lemma enrich_ar_ap_flags_keeps:
  "map gl_account (rows (fst (enrich_ar_ap_flags f))) = map gl_account (rows f)"
  "map bucket (rows (fst (enrich_ar_ap_flags f))) = map bucket (rows f)"
  "map txn_type (rows (fst (enrich_ar_ap_flags f))) = map txn_type (rows f)"
  "map is_mapped (rows (fst (enrich_ar_ap_flags f))) = map is_mapped (rows f)"
  by (simp_all add: enrich_ar_ap_flags_def o_def)

lemma calculate_overdue_keeps:
  "map gl_account (rows (fst (calculate_overdue cfg f))) = map gl_account (rows f)"
  "map bucket (rows (fst (calculate_overdue cfg f))) = map bucket (rows f)"
  "map txn_type (rows (fst (calculate_overdue cfg f))) = map txn_type (rows f)"
  "map is_mapped (rows (fst (calculate_overdue cfg f))) = map is_mapped (rows f)"
  by (simp_all add: calculate_overdue_def Let_def o_def)

lemma normalize_rows_mapping:
  "map gl_account (rows (fst (normalize_data cfg tp m f))) = map gl_account (rows f)"
  "map bucket (rows (fst (normalize_data cfg tp m f)))
       = map (lookup_bucket (mapping_dict m)) (map gl_account (rows f))"
  "map txn_type (rows (fst (normalize_data cfg tp m f)))
       = map (lookup_type (mapping_dict m)) (map gl_account (rows f))"
  "map is_mapped (rows (fst (normalize_data cfg tp m f)))
       = map (\<lambda>a. lookup_bucket (mapping_dict m) a \<noteq> ''Unmapped'') (map gl_account (rows f))"
  by (simp_all only: normalize_fst calculate_overdue_keeps enrich_ar_ap_flags_keeps
      merge_mapping_rows merged_columns add_temporal_features_keeps normalize_amounts_keeps)

text \<open>What the join does: flagged as mapped iff the looked-up bucket is not the sentinel.\<close>

lemma normalize_unmapped_rows:
  assumes "i < length (rows f)" and "gl_account (rows f ! i) \<notin> set (map map_gl_account m)"
  shows "bucket (rows (fst (normalize_data cfg tp m f)) ! i) = ''Unmapped''
       \<and> txn_type (rows (fst (normalize_data cfg tp m f)) ! i) = ''Other''
       \<and> \<not> is_mapped (rows (fst (normalize_data cfg tp m f)) ! i)"
proof -
  from assms(2) have none: "mapping_dict m (gl_account (rows f ! i)) = None"
    using mapping_dict_dom [of m] by blast
  let ?out = "rows (fst (normalize_data cfg tp m f))"
  have "length (map gl_account ?out) = length (map gl_account (rows f))"
    by (simp only: normalize_rows_mapping(1))
  then have len: "length ?out = length (rows f)" by simp
  have "bucket (?out ! i) = map bucket ?out ! i" "txn_type (?out ! i) = map txn_type ?out ! i"
    "is_mapped (?out ! i) = map is_mapped ?out ! i"
    using assms(1) len by simp_all
  then show ?thesis
    using assms(1) none
    by (simp add: normalize_rows_mapping lookup_bucket_def lookup_type_def)
qed

text \<open>
  Claim C1. The claim is that a normalized row is flagged as mapped exactly when its
  account is a key of the mapping table. The code derives the flag from the bucket label
  instead: on a mapping table that classifies account 400000 as revenue under the bucket
  label 'Unmapped', the row of that account is in the mapping table, gets the type
  'Revenue', and is flagged as not mapped.
\<close>

theorem merge_mapping_sentinel_bucket:
  "''400000'' \<in> set (map map_gl_account sentinel_mapping)
   \<and> map gl_account (rows (fst (normalize_data sample_cfg sample_period sentinel_mapping no_due_frame)))
       = [''400000'']
   \<and> map is_mapped (rows (fst (normalize_data sample_cfg sample_period sentinel_mapping no_due_frame)))
       = [False]
   \<and> map bucket (rows (fst (normalize_data sample_cfg sample_period sentinel_mapping no_due_frame)))
       = [''Unmapped'']
   \<and> map txn_type (rows (fst (normalize_data sample_cfg sample_period sentinel_mapping no_due_frame)))
       = [''Revenue'']"
  by (simp add: normalize_rows_mapping sentinel_mapping_def no_due_frame_def sample_txn_def
      mapping_dict_def lookup_bucket_def lookup_type_def)

lemma calculate_overdue_without_due_date:
  assumes "\<not> has_due_date f"
  shows "rows (fst (calculate_overdue cfg f))
           = map (\<lambda>r. r\<lparr>days_overdue := Some 0, is_overdue := False\<rparr>) (rows f)"
    and "snd (calculate_overdue cfg f)
           = [(Log_Info, ''due_date column not available, skipping overdue calculation'')]"
  using assms by (simp_all add: calculate_overdue_def)

lemma steps_keep_length:
  "length (rows (fst (enrich_ar_ap_flags (fst (merge_mapping m
       (fst (add_temporal_features tp (fst (normalize_amounts cfg f))))))))) = length (rows f)"
  by (simp add: normalize_amounts_def add_temporal_features_def merge_mapping_def
      enrich_ar_ap_flags_def Let_def)

lemma normalize_without_due_date:
  assumes "\<not> has_due_date f"
  shows "map days_overdue (rows (fst (normalize_data cfg tp m f))) = map (\<lambda>r. Some 0) (rows f)"
    and "map is_overdue (rows (fst (normalize_data cfg tp m f))) = map (\<lambda>r. False) (rows f)"
proof -
  let ?f4 = "fst (enrich_ar_ap_flags (fst (merge_mapping m
       (fst (add_temporal_features tp (fst (normalize_amounts cfg f)))))))"
  from assms have nd: "\<not> has_due_date ?f4" by (simp add: steps_keep_due_date_flag)
  have len: "length (rows ?f4) = length (rows f)" by (rule steps_keep_length)
  have "map days_overdue (rows (fst (normalize_data cfg tp m f))) = map (\<lambda>r. Some 0) (rows ?f4)"
    by (simp add: normalize_fst calculate_overdue_without_due_date(1) [OF nd] o_def)
  also have "\<dots> = map (\<lambda>r. Some 0) (rows f)"
    using len by (simp add: map_replicate_const)
  finally show "map days_overdue (rows (fst (normalize_data cfg tp m f))) = map (\<lambda>r. Some 0) (rows f)" .
  have "map is_overdue (rows (fst (normalize_data cfg tp m f))) = map (\<lambda>r. False) (rows ?f4)"
    by (simp add: normalize_fst calculate_overdue_without_due_date(1) [OF nd] o_def)
  also have "\<dots> = map (\<lambda>r. False) (rows f)"
    using len by (simp add: map_replicate_const)
  finally show "map is_overdue (rows (fst (normalize_data cfg tp m f))) = map (\<lambda>r. False) (rows f)" .
qed

lemma normalize_has_days_overdue: "has_days_overdue (fst (normalize_data cfg tp m f))"
  by (simp add: normalize_fst calculate_overdue_def Let_def)

lemma calculate_overdue_log_without_due_date:
  "\<not> has_due_date f \<Longrightarrow> snd (calculate_overdue cfg f)
     = [(Log_Info, ''due_date column not available, skipping overdue calculation'')]"
  by (simp add: calculate_overdue_def)

lemma normalize_log_without_due_date:
  assumes "\<not> has_due_date f"
  shows "\<exists>pre. snd (normalize_data cfg tp m f)
     = pre @ [(Log_Info, ''due_date column not available, skipping overdue calculation''),
              (Log_Info, ''Normalization complete'')]
     \<and> (Log_Warning, ''No due_date available, using posting_date + 30 days'') \<notin> set pre"
proof -
  let ?f1 = "fst (normalize_amounts cfg f)"
  let ?f2 = "fst (add_temporal_features tp ?f1)"
  let ?f3 = "fst (merge_mapping m ?f2)"
  let ?f4 = "fst (enrich_ar_ap_flags ?f3)"
  let ?pre = "[(Log_Info, ''Starting data normalization'')]
     @ snd (normalize_amounts cfg f) @ snd (add_temporal_features tp ?f1)
     @ snd (merge_mapping m ?f2) @ snd (enrich_ar_ap_flags ?f3)"
  from assms have nd: "\<not> has_due_date ?f4" by (simp add: steps_keep_due_date_flag)
  have "snd (normalize_data cfg tp m f)
     = ?pre @ [(Log_Info, ''due_date column not available, skipping overdue calculation''),
              (Log_Info, ''Normalization complete'')]"
    by (simp add: normalize_snd calculate_overdue_without_due_date(2) [OF nd])
  moreover have "(Log_Warning, ''No due_date available, using posting_date + 30 days'') \<notin> set ?pre"
    by (simp add: normalize_amounts_def merge_mapping_def add_temporal_features_def
        enrich_ar_ap_flags_def Let_def)
  ultimately show ?thesis by blast
qed

lemma aging_fallback:
  assumes "\<not> has_days_overdue df" and "\<not> has_due_date df"
  shows "map days_overdue (rows (fst (assign_aging_buckets cd buckets df)))
          = map (\<lambda>r. days_between cd (Some (posting_date r + 30))) (rows df)"
    and "snd (assign_aging_buckets cd buckets df)
          = [(Log_Warning, ''No due_date available, using posting_date + 30 days'')]"
  using assms by (simp_all add: assign_aging_buckets_def Let_def o_def)

lemma aging_no_fallback:
  assumes "has_days_overdue df"
  shows "map days_overdue (rows (fst (assign_aging_buckets cd buckets df)))
          = map days_overdue (rows df)"
    and "snd (assign_aging_buckets cd buckets df) = []"
  using assms by (simp_all add: assign_aging_buckets_def Let_def o_def)

text \<open>
  Claim C2, as amended. For a ledger export without a due\_date column, normalization sets
  the days overdue of every row to 0 and flags no row as overdue; its overdue step logs one
  information message and no log entry of the normalization is the warning of the
  fallback; the bucket assignment of the aging engine leaves the days overdue of a
  normalized frame as they are and logs nothing. The fallback to posting date plus 30 days,
  with its warning, is the bucket assignment's own, on a frame that has neither a
  days\_overdue nor a due\_date column: there the days overdue are the current date minus
  the posting date plus 30 days.
\<close>

theorem overdue_without_due_date:
  assumes "\<not> has_due_date fagl_df"
  shows "map days_overdue (rows (fst (normalize_data cfg tp m fagl_df)))
           = map (\<lambda>r. Some 0) (rows fagl_df)
   \<and> map is_overdue (rows (fst (normalize_data cfg tp m fagl_df))) = map (\<lambda>r. False) (rows fagl_df)
   \<and> snd (calculate_overdue cfg fagl_df)
       = [(Log_Info, ''due_date column not available, skipping overdue calculation'')]
   \<and> (\<exists>pre. snd (normalize_data cfg tp m fagl_df)
        = pre @ [(Log_Info, ''due_date column not available, skipping overdue calculation''),
                 (Log_Info, ''Normalization complete'')]
        \<and> (Log_Warning, ''No due_date available, using posting_date + 30 days'') \<notin> set pre)
   \<and> map days_overdue (rows (fst (assign_aging_buckets cd buckets (fst (normalize_data cfg tp m fagl_df)))))
       = map (\<lambda>r. Some 0) (rows fagl_df)
   \<and> snd (assign_aging_buckets cd buckets (fst (normalize_data cfg tp m fagl_df))) = []
   \<and> (\<not> has_days_overdue fagl_df \<longrightarrow>
        map days_overdue (rows (fst (assign_aging_buckets cd buckets fagl_df)))
          = map (\<lambda>r. days_between cd (Some (posting_date r + 30))) (rows fagl_df)
        \<and> snd (assign_aging_buckets cd buckets fagl_df)
          = [(Log_Warning, ''No due_date available, using posting_date + 30 days'')])"
proof -
  note n = normalize_without_due_date [OF assms, of cfg tp m]
  note a = aging_no_fallback [OF normalize_has_days_overdue, of cd buckets cfg tp m fagl_df]
  from a(1) n(1)
  have "map days_overdue
          (rows (fst (assign_aging_buckets cd buckets (fst (normalize_data cfg tp m fagl_df)))))
        = map (\<lambda>r. Some 0) (rows fagl_df)"
    by (rule trans)
  with n a(2) calculate_overdue_log_without_due_date [OF assms, of cfg]
    normalize_log_without_due_date [OF assms, of cfg tp m]
    aging_fallback [OF _ assms, of cd buckets]
  show ?thesis by blast
qed

theorem overdue_without_due_date_witness:
  "\<not> has_due_date two_row_frame
   \<and> \<not> has_days_overdue two_row_frame
   \<and> map days_overdue (rows (fst (normalize_data sample_cfg sample_period revenue_mapping two_row_frame)))
       = [Some 0, Some 0]
   \<and> map days_overdue (rows (fst (assign_aging_buckets (Some 160) default_aging_buckets
                                     two_row_frame)))
       = [Some 30, Some (- 30)]"
proof -
  have h: "\<not> has_due_date two_row_frame" by (simp add: two_row_frame_def)
  have h2: "\<not> has_days_overdue two_row_frame" by (simp add: two_row_frame_def)
  note t = overdue_without_due_date
             [OF h, of sample_cfg sample_period revenue_mapping "Some 160" default_aging_buckets]
  from t have "map days_overdue
      (rows (fst (normalize_data sample_cfg sample_period revenue_mapping two_row_frame)))
       = map (\<lambda>r. Some 0) (rows two_row_frame)"
    by blast
  then have a: "map days_overdue
      (rows (fst (normalize_data sample_cfg sample_period revenue_mapping two_row_frame)))
       = [Some 0, Some 0]"
    by (simp add: two_row_frame_def)
  from t h2 have "map days_overdue (rows (fst (assign_aging_buckets (Some 160)
        default_aging_buckets two_row_frame)))
       = map (\<lambda>r. days_between (Some 160) (Some (posting_date r + 30))) (rows two_row_frame)"
    by blast
  then have b: "map days_overdue (rows (fst (assign_aging_buckets (Some 160)
        default_aging_buckets two_row_frame))) = [Some 30, Some (- 30)]"
    by (simp add: two_row_frame_def sample_txn_def days_between_def)
  from h h2 a b show ?thesis by blast
qed

text \<open>
  Claim C2 as stated fails: for one row posted on day 100 and no due\_date column, the
  fallback named by the claim would give \<open>100 - (100 + 30) = -30\<close> days overdue and a warning;
  normalization gives 0 days and logs no warning.
\<close>

theorem normalize_no_due_date_counterexample:
  "\<not> has_due_date no_due_frame
   \<and> max_posting_date (rows no_due_frame) = Some 100
   \<and> map posting_date (rows no_due_frame) = [100]
   \<and> days_between (Some 100) (Some (100 + 30)) = Some (- 30)
   \<and> map days_overdue (rows (fst (normalize_data sample_cfg sample_period revenue_mapping no_due_frame)))
       = [Some 0]
   \<and> snd (normalize_data sample_cfg sample_period revenue_mapping no_due_frame)
       = [(Log_Info, ''Starting data normalization''),
          (Log_Debug, ''Added temporal features''),
          (Log_Info, ''Merged mapping data''),
          (Log_Debug, ''Added type flags''),
          (Log_Info, ''due_date column not available, skipping overdue calculation''),
          (Log_Info, ''Normalization complete'')]"
  by (simp add: normalize_data_def normalize_amounts_def add_temporal_features_def
      merge_mapping_def enrich_ar_ap_flags_def calculate_overdue_def merge_row_def
      Let_def split_def no_due_frame_def sample_cfg_def sample_txn_def revenue_mapping_def
      mapping_dict_def lookup_bucket_def lookup_type_def lookup_entity_def
      max_posting_date_def days_between_def)

section \<open>Properties of the anomaly engine\<close>

lemma keep_first_seen_filter:
  "filter (\<lambda>b. anomaly_key b = k) (keep_first_seen seen xs)
     = (if k \<in> seen then [] else take 1 (filter (\<lambda>b. anomaly_key b = k) xs))"
proof (induction xs arbitrary: seen)
  case Nil
  then show ?case by simp
next
  case (Cons a xs)
  show ?case
  proof (cases "anomaly_key a \<in> seen")
    case True
    then show ?thesis using Cons.IH [of seen] by auto
  next
    case False
    then show ?thesis using Cons.IH [of "insert (anomaly_key a) seen"] by auto
  qed
qed

lemma keep_first_seen_subset: "set (keep_first_seen seen xs) \<subseteq> set xs"
  by (induction xs arbitrary: seen) auto

lemma sorted_head_least:
  assumes "sorted (map f ys)" and "filter P ys = a # rest" and "b \<in> set ys" and "P b"
  shows "f a \<le> f b"
proof -
  have "sorted (map f (filter P ys))"
    using assms(1) by (rule sorted_filter)
  with assms(2) have "\<forall>x \<in> set rest. f a \<le> f x" by simp
  moreover from assms(3,4) have "b \<in> set (filter P ys)" by simp
  with assms(2) have "b = a \<or> b \<in> set rest" by simp
  ultimately show ?thesis by auto
qed

lemma deduplicate_key:
  assumes "a0 \<in> set anomalies" and "anomaly_key a0 = k"
  shows "\<exists>a. filter (\<lambda>b. anomaly_key b = k) (deduplicate_anomalies anomalies) = [a]
            \<and> a \<in> set anomalies \<and> anomaly_key a = k
            \<and> (\<forall>b \<in> set anomalies. anomaly_key b = k \<longrightarrow>
                  severity_order (anom_severity a) \<le> severity_order (anom_severity b))"
proof -
  let ?f = "\<lambda>a. (anom_date a, anom_bucket a, severity_order (anom_severity a))"
  let ?ys = "sort_key ?f anomalies"
  let ?P = "\<lambda>b. anomaly_key b = k"
  from assms have "a0 \<in> set (filter ?P ?ys)" by simp
  then obtain a rest where ar: "filter ?P ?ys = a # rest"
    by (cases "filter ?P ?ys") auto
  then have "a \<in> set (filter ?P ?ys)" by simp
  then have a_in: "a \<in> set anomalies" and a_key: "anomaly_key a = k" by simp_all
  have one: "filter ?P (deduplicate_anomalies anomalies) = [a]"
    by (simp add: deduplicate_anomalies_def keep_first_seen_filter ar)
  have least: "severity_order (anom_severity a) \<le> severity_order (anom_severity b)"
    if "b \<in> set anomalies" "anomaly_key b = k" for b
  proof -
    from that have "b \<in> set ?ys" by simp
    with ar that(2) have "?f a \<le> ?f b"
      using sorted_head_least [of ?f ?ys ?P a rest b] by simp
    moreover from a_key that(2) have "anom_date a = anom_date b" "anom_bucket a = anom_bucket b"
      by (auto simp add: anomaly_key_def)
    ultimately show ?thesis by (simp add: less_eq_prod_def)
  qed
  from one a_in a_key least show ?thesis by blast
qed

text \<open>
  Claim C5. When two flags of different methods in the list of detected anomalies have the
  same month and bucket, the deduplicated list holds exactly one anomaly with that month
  and bucket; it is one of the flags for that key, and no flag for the key is more severe
  (high before medium before low): its severity is the maximum among them.
\<close>

theorem deduplication_keeps_worst:
  assumes "a1 \<in> set anomalies" and "a2 \<in> set anomalies"
    and "anomaly_key a1 = k" and "anomaly_key a2 = k"
    and "anom_method a1 \<noteq> anom_method a2"
  shows "\<exists>a. filter (\<lambda>b. anomaly_key b = k) (deduplicate_anomalies anomalies) = [a]
            \<and> a \<in> set anomalies \<and> anomaly_key a = k
            \<and> (\<forall>b \<in> set anomalies. anomaly_key b = k \<longrightarrow>
                  severity_order (anom_severity a) \<le> severity_order (anom_severity b))"
  using assms(1,3) by (rule deduplicate_key)

theorem deduplication_keeps_worst_witness:
  "zscore_flag \<in> set [zscore_flag, mad_flag] \<and> mad_flag \<in> set [zscore_flag, mad_flag]
   \<and> anomaly_key zscore_flag = flag_key \<and> anomaly_key mad_flag = flag_key
   \<and> anom_method zscore_flag \<noteq> anom_method mad_flag
   \<and> filter (\<lambda>b. anomaly_key b = flag_key) (deduplicate_anomalies [zscore_flag, mad_flag])
       = [mad_flag]
   \<and> anom_severity mad_flag = High"
proof -
  have h1: "zscore_flag \<in> set [zscore_flag, mad_flag]" by simp
  have h2: "mad_flag \<in> set [zscore_flag, mad_flag]" by simp
  have h3: "anomaly_key zscore_flag = flag_key"
    by (simp add: anomaly_key_def zscore_flag_def flag_key_def)
  have h4: "anomaly_key mad_flag = flag_key"
    by (simp add: anomaly_key_def mad_flag_def flag_key_def)
  have h5: "anom_method zscore_flag \<noteq> anom_method mad_flag"
    by (simp add: zscore_flag_def mad_flag_def)
  from deduplication_keeps_worst [OF h1 h2 h3 h4 h5]
  obtain a where one: "filter (\<lambda>b. anomaly_key b = flag_key)
                          (deduplicate_anomalies [zscore_flag, mad_flag]) = [a]"
    and a_in: "a \<in> set [zscore_flag, mad_flag]"
    and least: "\<forall>b \<in> set [zscore_flag, mad_flag]. anomaly_key b = flag_key \<longrightarrow>
                  severity_order (anom_severity a) \<le> severity_order (anom_severity b)"
    by blast
  from least h4 have "severity_order (anom_severity a) \<le> severity_order (anom_severity mad_flag)"
    by simp
  then have "severity_order (anom_severity a) = 0"
    by (simp add: mad_flag_def severity_order_def)
  with a_in have "a = mad_flag"
    by (auto simp add: zscore_flag_def severity_order_def)
  with one h1 h2 h3 h4 h5 show ?thesis by (simp add: mad_flag_def)
qed















lemma isolation_bucket_carries:
  "a \<in> set (isolation_bucket forest ms) \<Longrightarrow> \<exists>row \<in> set ms. anom_bucket a = m_bucket row"
  by (auto simp add: isolation_bucket_def Let_def mk_anomaly_def split: if_splits
      dest!: set_zip_leftD)
















section \<open>Properties of the KPI engine\<close>

lemma growth_keys:
  "fst ` set (fst (calculate_growth_metrics monthly_kpis)) =
     (if length monthly_kpis < 2 then {}
      else {''latest_revenue_mom'', ''avg_revenue_mom'', ''latest_opex_mom'', ''avg_opex_mom''}
           \<union> (if 13 \<le> length monthly_kpis then {''latest_revenue_yoy'', ''avg_revenue_yoy''} else {})
           \<union> (if 12 \<le> length monthly_kpis
                   \<and> 0 < hd (map kpi_revenue (sort_key kpi_year_month monthly_kpis))
                   \<and> 0 < last (map kpi_revenue (sort_key kpi_year_month monthly_kpis))
               then {''revenue_cagr''} else {}))"
  by (auto simp add: calculate_growth_metrics_def Let_def)

lemma growth_yoy_ops:
  "length monthly_kpis < 13 \<Longrightarrow> op \<in> set (snd (calculate_growth_metrics monthly_kpis)) \<Longrightarrow>
   metric_of op \<noteq> ''revenue_yoy''"
  by (auto simp add: calculate_growth_metrics_def Let_def pct_change_ops_def metric_of_def
      split: if_splits)

lemma growth_cagr_ops_safe:
  "op \<in> set (snd (calculate_growth_metrics monthly_kpis)) \<Longrightarrow>
   metric_of op = ''revenue_cagr'' \<Longrightarrow> \<not> hazardous op"
  by (auto simp add: calculate_growth_metrics_def Let_def pct_change_ops_def metric_of_def
      hazardous_def divide_less_0_iff split: if_splits)

lemma growth_cagr_ops_guard:
  "op \<in> set (snd (calculate_growth_metrics monthly_kpis)) \<Longrightarrow>
   metric_of op = ''revenue_cagr'' \<Longrightarrow>
   \<not> (0 < hd (map kpi_revenue (sort_key kpi_year_month monthly_kpis))
      \<and> 0 < last (map kpi_revenue (sort_key kpi_year_month monthly_kpis))) \<Longrightarrow>
   op = Division ''revenue_cagr'' (real (length monthly_kpis)) 12"
  by (auto simp add: calculate_growth_metrics_def Let_def pct_change_ops_def metric_of_def
      split: if_splits)

text \<open>
  Claim C7. The growth computation puts the two year-over-year entries into its result
  exactly when the monthly frame has at least 13 rows, and the CAGR entry exactly when it
  has at least 12 rows and the revenues of the first and of the last month, in order of
  time, are both strictly positive. With fewer than 13 rows no year-over-year division is
  evaluated. No operation evaluated for the CAGR is a division by zero or a power of a
  negative base; when the first or the last revenue is not positive, all that is evaluated
  for the CAGR is the number of rows divided by 12. (The month-over-month percentage
  changes, which the claim does not speak of, divide by the revenue of the month before
  without a test.)
\<close>

theorem growth_metrics_guards:
  "(''latest_revenue_yoy'' \<in> fst ` set (fst (calculate_growth_metrics monthly_kpis))
      \<longleftrightarrow> 13 \<le> length monthly_kpis)
   \<and> (''avg_revenue_yoy'' \<in> fst ` set (fst (calculate_growth_metrics monthly_kpis))
      \<longleftrightarrow> 13 \<le> length monthly_kpis)
   \<and> (''revenue_cagr'' \<in> fst ` set (fst (calculate_growth_metrics monthly_kpis))
      \<longleftrightarrow> 12 \<le> length monthly_kpis
          \<and> 0 < hd (map kpi_revenue (sort_key kpi_year_month monthly_kpis))
          \<and> 0 < last (map kpi_revenue (sort_key kpi_year_month monthly_kpis)))
   \<and> (length monthly_kpis < 13 \<longrightarrow>
        (\<forall>op \<in> set (snd (calculate_growth_metrics monthly_kpis)).
           metric_of op \<noteq> ''revenue_yoy''))
   \<and> (\<forall>op \<in> set (snd (calculate_growth_metrics monthly_kpis)).
        metric_of op = ''revenue_cagr'' \<longrightarrow> \<not> hazardous op)
   \<and> (\<not> (0 < hd (map kpi_revenue (sort_key kpi_year_month monthly_kpis))
          \<and> 0 < last (map kpi_revenue (sort_key kpi_year_month monthly_kpis))) \<longrightarrow>
        (\<forall>op \<in> set (snd (calculate_growth_metrics monthly_kpis)).
           metric_of op = ''revenue_cagr'' \<longrightarrow>
           op = Division ''revenue_cagr'' (real (length monthly_kpis)) 12))"
proof (intro conjI impI ballI)
  show "''latest_revenue_yoy'' \<in> fst ` set (fst (calculate_growth_metrics monthly_kpis))
      \<longleftrightarrow> 13 \<le> length monthly_kpis"
    unfolding growth_keys by simp
  show "''avg_revenue_yoy'' \<in> fst ` set (fst (calculate_growth_metrics monthly_kpis))
      \<longleftrightarrow> 13 \<le> length monthly_kpis"
    unfolding growth_keys by simp
  show "''revenue_cagr'' \<in> fst ` set (fst (calculate_growth_metrics monthly_kpis))
      \<longleftrightarrow> 12 \<le> length monthly_kpis
          \<and> 0 < hd (map kpi_revenue (sort_key kpi_year_month monthly_kpis))
          \<and> 0 < last (map kpi_revenue (sort_key kpi_year_month monthly_kpis))"
    unfolding growth_keys by simp
next
  fix op
  assume "length monthly_kpis < 13" "op \<in> set (snd (calculate_growth_metrics monthly_kpis))"
  then show "metric_of op \<noteq> ''revenue_yoy''" by (rule growth_yoy_ops)
next
  fix op
  assume "op \<in> set (snd (calculate_growth_metrics monthly_kpis))"
    "metric_of op = ''revenue_cagr''"
  then show "\<not> hazardous op" by (rule growth_cagr_ops_safe)
next
  fix op
  assume "\<not> (0 < hd (map kpi_revenue (sort_key kpi_year_month monthly_kpis))
          \<and> 0 < last (map kpi_revenue (sort_key kpi_year_month monthly_kpis)))"
    "op \<in> set (snd (calculate_growth_metrics monthly_kpis))"
    "metric_of op = ''revenue_cagr''"
  then show "op = Division ''revenue_cagr'' (real (length monthly_kpis)) 12"
    using growth_cagr_ops_guard by blast
qed

lemma one_year_sorted:
  "map kpi_revenue (sort_key kpi_year_month one_year_kpis)
     = [100, 110, 120, 120, 130, 0, 140, 150, 150, 160, 170, 200]"
  by (simp add: one_year_kpis_def kpi_month_def)

theorem growth_metrics_guards_witness:
  "length one_year_kpis = 12
   \<and> hd (map kpi_revenue (sort_key kpi_year_month one_year_kpis)) = 100
   \<and> last (map kpi_revenue (sort_key kpi_year_month one_year_kpis)) = 200
   \<and> ''revenue_cagr'' \<in> fst ` set (fst (calculate_growth_metrics one_year_kpis))
   \<and> ''latest_revenue_yoy'' \<notin> fst ` set (fst (calculate_growth_metrics one_year_kpis))
   \<and> ''avg_revenue_yoy'' \<notin> fst ` set (fst (calculate_growth_metrics one_year_kpis))
   \<and> Division ''revenue_cagr'' 200 100 \<in> set (snd (calculate_growth_metrics one_year_kpis))
   \<and> \<not> hazardous (Division ''revenue_cagr'' 200 100)"
proof -
  have len: "length one_year_kpis = 12" by (simp add: one_year_kpis_def)
  have h: "hd (map kpi_revenue (sort_key kpi_year_month one_year_kpis)) = 100"
    and l: "last (map kpi_revenue (sort_key kpi_year_month one_year_kpis)) = 200"
    unfolding one_year_sorted by simp_all
  note t = growth_metrics_guards [of one_year_kpis]
  from t len h l
  have cagr: "''revenue_cagr'' \<in> fst ` set (fst (calculate_growth_metrics one_year_kpis))"
    by simp
  from t len
  have yoy: "''latest_revenue_yoy'' \<notin> fst ` set (fst (calculate_growth_metrics one_year_kpis))"
    "''avg_revenue_yoy'' \<notin> fst ` set (fst (calculate_growth_metrics one_year_kpis))"
    by simp_all
  have ops: "Division ''revenue_cagr'' 200 100 \<in> set (snd (calculate_growth_metrics one_year_kpis))"
    using len h l by (simp add: calculate_growth_metrics_def Let_def)
  from t ops have safe: "\<not> hazardous (Division ''revenue_cagr'' 200 100)"
    by (auto simp add: metric_of_def)
  from len h l cagr yoy ops safe show ?thesis by blast
qed

text \<open>
  The month-over-month changes are outside the guards: in the sample year the change of
  month 7 divides by the revenue 0 of month 6.
\<close>

lemma month_over_month_unguarded:
  "Division ''revenue_mom'' 140 0 \<in> set (snd (calculate_growth_metrics one_year_kpis))
   \<and> hazardous (Division ''revenue_mom'' 140 0)"
proof -
  have "Division ''revenue_mom'' 140 0 \<in> set (pct_change_ops ''revenue_mom'' 1
          (map kpi_revenue (sort_key kpi_year_month one_year_kpis)))"
    unfolding one_year_sorted pct_change_ops_def
    by (simp add: upt_rec)
  moreover have "length one_year_kpis = 12" by (simp add: one_year_kpis_def)
  ultimately show ?thesis
    by (simp add: calculate_growth_metrics_def Let_def hazardous_def)
qed

end
